theory Spec2Isabelle
  imports Complex_Main
begin

section \<open>Python errors\<close>

text \<open>
  Every exception that the modelled code paths can raise is a value of \<open>py_error\<close>; a
  computation that may raise returns \<open>py_error + 'a\<close> with \<open>Inl\<close> for the exception.
  \<open>InvalidGateError\<close> is the error class that the specification names for malformed gates;
  no source path raises it.  numpy \<open>float64\<close> values are modelled as \<open>real\<close>: rounding,
  infinities and NaN are outside the model.
\<close>

datatype py_error =
    IndexError | KeyError | TypeError | ValueError | RuntimeError
  | ZeroDivisionError | NotImplementedError | InvalidGateError

section \<open>Timing scheduler: \<open>HardwareCircuit._calculate_sequence_duration\<close>\<close>

text \<open>
  A gate of the queue exposes its class (the scheduler only tests \<open>isinstance\<close> against
  \<open>gates.Align\<close> and \<open>gates.CNOT\<close>), its target and control qubit tuples and the value
  of \<open>gate.duration(self.qubit_config)\<close>.  Qubit ids are the non-negative indices that
  qibo assigns, hence \<open>nat\<close>.
\<close>

datatype gate_class = Align | CNOT | OtherGate

record gate =
  gclass :: gate_class
  target_qubits :: "nat list"
  control_qubits :: "nat list"
  duration :: real

text \<open>Reading \<open>qubit_times[q]\<close>: numpy raises \<open>IndexError\<close> beyond the array.\<close>

definition np_get :: "real list \<Rightarrow> nat \<Rightarrow> py_error + real" where
  "np_get ts q = (if q < length ts then Inr (ts ! q) else Inl IndexError)"

text \<open>First loop of the \<open>Align\<close> branch: \<open>m = max(m, qubit_times[q])\<close>.\<close>

fun align_max :: "real list \<Rightarrow> nat list \<Rightarrow> real \<Rightarrow> py_error + real" where
  "align_max ts [] m = Inr m"
| "align_max ts (q # qs) m =
     (case np_get ts q of Inl e \<Rightarrow> Inl e | Inr v \<Rightarrow> align_max ts qs (max m v))"

text \<open>Second loop of the \<open>Align\<close> branch: \<open>qubit_times[q] = m\<close>.\<close>

fun align_set :: "real list \<Rightarrow> nat list \<Rightarrow> real \<Rightarrow> py_error + real list" where
  "align_set ts [] m = Inr ts"
| "align_set ts (q # qs) m =
     (if q < length ts then align_set (ts[q := m]) qs m else Inl IndexError)"

text \<open>
  One iteration of the loop over the gate sequence.  \<open>gate.target_qubits[0]\<close> is read
  before the class is inspected, so an empty target tuple raises \<open>IndexError\<close> for every
  gate class; \<open>gate.control_qubits[0]\<close> is read in the \<open>CNOT\<close> branch only.
\<close>

definition gate_step :: "real list \<Rightarrow> gate \<Rightarrow> py_error + real list" where
  "gate_step ts g =
     (case target_qubits g of
        [] \<Rightarrow> Inl IndexError
      | q # _ \<Rightarrow>
         (case gclass g of
            Align \<Rightarrow>
              (case align_max ts (target_qubits g) 0 of
                 Inl e \<Rightarrow> Inl e
               | Inr m \<Rightarrow> align_set ts (target_qubits g) m)
          | CNOT \<Rightarrow>
              (case control_qubits g of
                 [] \<Rightarrow> Inl IndexError
               | control # _ \<Rightarrow>
                  (case np_get ts q of
                     Inl e \<Rightarrow> Inl e
                   | Inr tq \<Rightarrow>
                      (case np_get ts control of
                         Inl e \<Rightarrow> Inl e
                       | Inr tc \<Rightarrow>
                          (let start = max tq tc;
                               ts1 = ts[q := start + duration g]
                           in Inr (ts1[control := ts1 ! q])))))
          | OtherGate \<Rightarrow>
              (case np_get ts q of
                 Inl e \<Rightarrow> Inl e
               | Inr tq \<Rightarrow> Inr (ts[q := tq + duration g]))))"

fun sequence_loop :: "real list \<Rightarrow> gate list \<Rightarrow> py_error + real list" where
  "sequence_loop ts [] = Inr ts"
| "sequence_loop ts (g # gs) =
     (case gate_step ts g of Inl e \<Rightarrow> Inl e | Inr ts' \<Rightarrow> sequence_loop ts' gs)"

definition calculate_sequence_duration :: "nat \<Rightarrow> gate list \<Rightarrow> py_error + real list" where
  "calculate_sequence_duration nqubits gate_sequence =
     sequence_loop (replicate nqubits 0) gate_sequence"

text \<open>
  Line 125 of \<open>_execute_sequence\<close>:
  \<open>qubit_times = experiment.static.readout_start_time - self._calculate_sequence_duration(self.queue)\<close>.
  The constant \<open>readout_start_time\<close> lives in a module outside the sources and is a parameter.
\<close>

definition execute_sequence_qubit_times :: "real \<Rightarrow> nat \<Rightarrow> gate list \<Rightarrow> py_error + real list" where
  "execute_sequence_qubit_times readout_start_time nqubits queue =
     (case calculate_sequence_duration nqubits queue of
        Inl e \<Rightarrow> Inl e
      | Inr durations \<Rightarrow> Inr (map (\<lambda>t. readout_start_time - t) durations))"

text \<open>The sum of the durations of the gates of a queue whose target is qubit \<open>q\<close>.\<close>

definition duration_on :: "gate list \<Rightarrow> nat \<Rightarrow> real" where
  "duration_on queue q = sum_list (map duration (filter (\<lambda>g. q \<in> set (target_qubits g)) queue))"

text \<open>A gate that is neither a barrier nor a two-qubit gate: one target inside the register, no control.\<close>

definition single_qubit_gate :: "nat \<Rightarrow> gate \<Rightarrow> bool" where
  "single_qubit_gate nqubits g \<longleftrightarrow>
     gclass g = OtherGate \<and> length (target_qubits g) = 1 \<and> control_qubits g = []
     \<and> hd (target_qubits g) < nqubits"


section \<open>Calibration frame rotation: \<open>HardwareCircuit._probability_extraction\<close>\<close>

text \<open>
  The three arguments are two-element arrays, modelled as pairs.  \<open>np.sign\<close> is \<open>sgn\<close>
  (zero at zero).  numpy divides by zero without raising; the cases where it does so
  (\<open>refer_0 = refer_1\<close>) are outside the statements below.
\<close>

definition probability_extraction :: "real \<times> real \<Rightarrow> real \<times> real \<Rightarrow> real \<times> real \<Rightarrow> real" where
  "probability_extraction data refer_0 refer_1 =
     (let move = refer_0;
          refer_1 = (fst refer_1 - fst move, snd refer_1 - snd move);
          data = (fst data - fst move, snd data - snd move);
          angle = arccos (fst refer_1 / sqrt ((fst refer_1)\<^sup>2 + (snd refer_1)\<^sup>2)) * sgn (snd refer_1);
          new_data = (fst data * cos angle + snd data * sin angle,
                      - fst data * sin angle + snd data * cos angle);
          new_refer_1 = (fst refer_1 * cos angle + snd refer_1 * sin angle,
                         - fst refer_1 * sin angle + snd refer_1 * cos angle);
          new_data_0 = (if fst new_data < 0 then 0
                        else if fst new_data > fst new_refer_1 then fst new_refer_1
                        else fst new_data)
      in new_data_0 / fst new_refer_1)"

section \<open>Python values\<close>

text \<open>
  The run-time values on which the dispatch code applies \<open>len\<close>, \<open>or\<close> and \<open>>\<close>:
  \<open>None\<close>, booleans, integers and tuples of objects of some class \<open>'o\<close>.
\<close>

datatype 'o pyval = PyNone | PyBool bool | PyInt int | PyTuple "'o list"

text \<open>Truth value of an object, as \<open>if\<close> and \<open>or\<close> take it.\<close>

fun py_truthy :: "'o pyval \<Rightarrow> bool" where
  "py_truthy PyNone = False"
| "py_truthy (PyBool b) = b"
| "py_truthy (PyInt i) = (i \<noteq> 0)"
| "py_truthy (PyTuple xs) = (xs \<noteq> [])"

text \<open>\<open>a or b\<close> yields \<open>a\<close> when it is true and \<open>b\<close> otherwise.\<close>

definition py_or :: "'o pyval \<Rightarrow> 'o pyval \<Rightarrow> 'o pyval" where
  "py_or a b = (if py_truthy a then a else b)"

text \<open>\<open>len(x)\<close>: only the tuple has a length; \<open>None\<close>, \<open>bool\<close> and \<open>int\<close> raise \<open>TypeError\<close>.\<close>

fun py_len :: "'o pyval \<Rightarrow> py_error + int" where
  "py_len (PyTuple xs) = Inr (int (length xs))"
| "py_len PyNone = Inl TypeError"
| "py_len (PyBool b) = Inl TypeError"
| "py_len (PyInt i) = Inl TypeError"

text \<open>
  \<open>x > n\<close> for an integer \<open>n\<close>: defined on integers and booleans (\<open>bool\<close> is a subclass
  of \<open>int\<close>); a tuple or \<open>None\<close> against an integer raises \<open>TypeError\<close>.
\<close>

fun py_gt_int :: "'o pyval \<Rightarrow> int \<Rightarrow> py_error + 'o pyval" where
  "py_gt_int (PyInt i) n = Inr (PyBool (i > n))"
| "py_gt_int (PyBool b) n = Inr (PyBool ((if b then 1 else 0) > n))"
| "py_gt_int (PyTuple xs) n = Inl TypeError"
| "py_gt_int PyNone n = Inl TypeError"

section \<open>Circuit execution: \<open>HardwareCircuit.execute\<close> and \<open>__call__\<close>\<close>

text \<open>
  The \<open>scheduler\<close> module is outside the sources.  What \<open>execute\<close> needs from it is the
  value returned by \<open>check_tomography_required()\<close> and the constant
  \<open>readout_start_time\<close>; both are fields of \<open>backend\<close>.  Calls into the scheduler are
  recorded as events, in order.
\<close>

record backend =
  tomography_required :: "unit pyval"
  readout_start_time :: real

record hardware_circuit =
  nqubits :: nat
  queue :: "gate list"
  measurement_gate :: "gate option"
  density_matrix :: "unit pyval"

datatype event =
    FetchConfig
  | CheckTomographyRequired
  | ExecutePulseSequence "real list"
  | ExecuteTomography

datatype outcome = SequenceResult | TomographyResult

text \<open>
  \<open>_execute_sequence\<close>: the qubit start times are computed, the pulse sequence built with
  them is handed to \<open>scheduler.execute_pulse_sequence\<close>.
\<close>

definition execute_sequence :: "backend \<Rightarrow> hardware_circuit \<Rightarrow> event list \<times> (py_error + outcome)" where
  "execute_sequence b c =
     (case execute_sequence_qubit_times (readout_start_time b) (nqubits c) (queue c) of
        Inl e \<Rightarrow> ([], Inl e)
      | Inr qubit_times \<Rightarrow> ([ExecutePulseSequence qubit_times], Inr SequenceResult))"

text \<open>
  \<open>_execute_tomography_sequence\<close> builds its sequences with the \<open>tomography\<close> module,
  which is outside the sources; the path is kept opaque.
\<close>

definition execute_tomography_sequence :: "backend \<Rightarrow> hardware_circuit \<Rightarrow> event list \<times> (py_error + outcome)" where
  "execute_tomography_sequence b c = ([ExecuteTomography], Inr TomographyResult)"

definition execute ::
  "backend \<Rightarrow> hardware_circuit \<Rightarrow> unit pyval \<Rightarrow> unit pyval \<Rightarrow> event list \<times> (py_error + outcome)" where
  "execute b c initial_state nshots =
     (if initial_state \<noteq> PyNone then ([], Inl ValueError)
      else if measurement_gate c = None then ([], Inl RuntimeError)
      else
        (case py_len (py_or (tomography_required b) (density_matrix c)) of
           Inl e \<Rightarrow> ([FetchConfig, CheckTomographyRequired], Inl e)
         | Inr n \<Rightarrow>
            (let (evs, res) = (if n \<noteq> 0 then execute_tomography_sequence b c
                               else execute_sequence b c)
             in (FetchConfig # CheckTomographyRequired # evs, res))))"

text \<open>
  Binding of positional arguments to \<open>execute(self, initial_state=None, nshots=None)\<close>:
  more than two arguments after \<open>self\<close> raise \<open>TypeError\<close> before the body runs.
\<close>

definition execute_positional ::
  "backend \<Rightarrow> hardware_circuit \<Rightarrow> unit pyval list \<Rightarrow> event list \<times> (py_error + outcome)" where
  "execute_positional b c args =
     (case args of
        [] \<Rightarrow> execute b c PyNone PyNone
      | [initial_state] \<Rightarrow> execute b c initial_state PyNone
      | [initial_state, nshots] \<Rightarrow> execute b c initial_state nshots
      | _ \<Rightarrow> ([], Inl TypeError))"

text \<open>\<open>__call__\<close>: \<open>return self.execute(initial_state, nshots, measurement_level)\<close>.\<close>

definition call ::
  "backend \<Rightarrow> hardware_circuit \<Rightarrow> unit pyval \<Rightarrow> unit pyval \<Rightarrow> unit pyval
     \<Rightarrow> event list \<times> (py_error + outcome)" where
  "call b c initial_state nshots measurement_level =
     execute_positional b c [initial_state, nshots, measurement_level]"

section \<open>Hardware sweeps: \<open>RFSOC_RO.sweep\<close>\<close>

text \<open>
  \<open>sweep(self, qubits, sequence, options, *sweeper)\<close> receives its sweepers as a tuple.
  A sweeper carries the swept parameter, the values it takes and the pulses it acts on.
  Setting the attenuation, setting a pulse attribute and playing the sequence are
  recorded as events.
\<close>

datatype parameter =
    Frequency | Amplitude | Duration | RelativePhase | Start | Attenuation | Gain | Bias

record sweeper =
  parameter :: parameter
  svalues :: "real list"
  spulses :: "nat list"

datatype sweep_event = SetAttenuation real | SetPulseAttribute parameter real | Play

text \<open>A member of an \<open>Enum\<close> is true, whichever member it is.\<close>

definition enum_truthy :: "parameter \<Rightarrow> bool" where
  "enum_truthy p = True"

text \<open>The keys of the local dictionary \<open>attribute\<close>.\<close>

definition attribute_known :: "parameter \<Rightarrow> bool" where
  "attribute_known p \<longleftrightarrow> p \<in> {Amplitude, Duration, Frequency, RelativePhase, Start}"

text \<open>
  The loop over the sweep values.  The second test reads
  \<open>sweep.parameter is Parameter.gain or Parameter.bias\<close>, whose right operand is the
  enum member itself.
\<close>

fun sweep_loop :: "sweeper \<Rightarrow> real list \<Rightarrow> sweep_event list \<times> (py_error + unit)" where
  "sweep_loop sw [] = ([], Inr ())"
| "sweep_loop sw (val # vals) =
     (if parameter sw = Attenuation then
        (if spulses sw = [] then ([], Inl IndexError)
         else (case sweep_loop sw vals of
                 (evs, r) \<Rightarrow> (SetAttenuation val # Play # evs, r)))
      else if parameter sw = Gain \<or> enum_truthy Bias then ([], Inl NotImplementedError)
      else if spulses sw \<noteq> [] \<and> \<not> attribute_known (parameter sw) then ([], Inl KeyError)
      else (case sweep_loop sw vals of
              (evs, r) \<Rightarrow> (SetPulseAttribute (parameter sw) val # Play # evs, r)))"

text \<open>
  The guard is \<open>len(sweeper > 1)\<close>: the comparison is evaluated first, \<open>len\<close> is applied
  to its value, and the truth of that length decides whether \<open>NotImplementedError\<close> is
  raised.  Then \<open>sweeper[0]\<close> is read.
\<close>

definition sweep :: "sweeper list \<Rightarrow> sweep_event list \<times> (py_error + unit)" where
  "sweep sweepers =
     (case py_gt_int (PyTuple sweepers) 1 of
        Inl e \<Rightarrow> ([], Inl e)
      | Inr v \<Rightarrow>
         (case py_len v of
            Inl e \<Rightarrow> ([], Inl e)
          | Inr n \<Rightarrow>
             if n \<noteq> 0 then ([], Inl NotImplementedError)
             else (case sweepers of
                     [] \<Rightarrow> ([], Inl IndexError)
                   | sw # _ \<Rightarrow> sweep_loop sw (svalues sw))))"

section \<open>Waveform compilation: \<open>RFSOC.play\<close>\<close>

text \<open>
  A pulse as \<open>play\<close> reads it.  The shape is either DRAG with its \<open>rel_sigma\<close> and
  \<open>beta\<close>, or any other shape.
\<close>

datatype pulse_type = FLUX | DRIVE | READOUT

datatype pulse_shape = DRAG real real | OtherShape

record pulse =
  ptype :: pulse_type
  start :: real
  pduration :: real
  amplitude :: real
  frequency :: real
  relative_phase :: real
  channel :: nat
  qubit :: nat
  shape :: pulse_shape
  serial :: string

text \<open>
  A qubit object: the DAC behind each of its drive channels and the port pair of its
  readout line.
\<close>

record qubit_obj =
  drive_ports :: "nat \<rightharpoonup> nat"
  readout_ports :: "nat list"

text \<open>
  The controller with its device.  \<open>dac_max_samples\<close> maps the id of each DAC to its
  buffer length, \<open>ports_dac\<close> is \<open>self.ports(channel).dac\<close> (\<open>None\<close> while unset).  The
  window functions of \<open>scipy.signal.windows\<close> and the driver calls of the \<open>READOUT\<close>
  branch (delay registers, demodulation unit) belong to external packages: they are
  parameters, each with the failure it may raise.  The driver calls neither read nor
  write the waveform buffers.
\<close>

record rfsoc =
  dac_max_samples :: "nat \<rightharpoonup> nat"
  dac_sampling_rate :: real
  dac_max_amplitude :: real
  adc_sampling_rate :: real
  adc_sample_size :: nat
  ports_dac :: "nat \<Rightarrow> nat option"
  gaussian :: "int \<Rightarrow> real \<Rightarrow> py_error + real list"
  hamming :: "int \<Rightarrow> py_error + real list"
  program_readout :: "pulse \<Rightarrow> py_error + unit"

text \<open>\<open>int(x)\<close> of a float truncates towards zero.\<close>

definition py_int :: "real \<Rightarrow> int" where
  "py_int x = (if 0 \<le> x then \<lfloor>x\<rfloor> else \<lceil>x\<rceil>)"

text \<open>
  Elementwise operations on one-dimensional arrays.  Equal lengths combine pointwise, a
  one-element operand is broadcast, everything else raises \<open>ValueError\<close>; the in-place
  form cannot grow its left operand.
\<close>

definition np_binop :: "(real \<Rightarrow> real \<Rightarrow> real) \<Rightarrow> real list \<Rightarrow> real list \<Rightarrow> py_error + real list" where
  "np_binop f a b =
     (if length a = length b then Inr (map2 f a b)
      else if length b = 1 then Inr (map (\<lambda>x. f x (hd b)) a)
      else if length a = 1 then Inr (map (\<lambda>y. f (hd a) y) b)
      else Inl ValueError)"

definition np_inplace :: "(real \<Rightarrow> real \<Rightarrow> real) \<Rightarrow> real list \<Rightarrow> real list \<Rightarrow> py_error + real list" where
  "np_inplace f a b =
     (if length a = length b then Inr (map2 f a b)
      else if length b = 1 then Inr (map (\<lambda>x. f x (hd b)) a)
      else Inl ValueError)"

text \<open>The bounds of the slice \<open>[start:stop]\<close> of an array of length \<open>n\<close>.\<close>

definition slice_indices :: "nat \<Rightarrow> int \<Rightarrow> int \<Rightarrow> nat \<times> nat" where
  "slice_indices n start_i stop_i =
     (let lo = (if start_i < 0 then max (start_i + int n) 0 else min start_i (int n));
          hi = (if stop_i < 0 then max (stop_i + int n) 0 else min stop_i (int n))
      in (nat lo, nat (max lo hi)))"

text \<open>\<open>arr[start:stop] += v\<close>: the samples are added to the ones already there.\<close>

definition np_iadd_slice :: "real list \<Rightarrow> int \<Rightarrow> int \<Rightarrow> real list \<Rightarrow> py_error + real list" where
  "np_iadd_slice arr start_i stop_i v =
     (case slice_indices (length arr) start_i stop_i of
        (lo, hi) \<Rightarrow>
          if length v = hi - lo then
            Inr (map (\<lambda>i. if lo \<le> i \<and> i < hi then arr ! i + v ! (i - lo) else arr ! i)
                     [0..<length arr])
          else if length v = 1 then
            Inr (map (\<lambda>i. if lo \<le> i \<and> i < hi then arr ! i + v ! 0 else arr ! i)
                     [0..<length arr])
          else Inl ValueError)"

text \<open>The sampled carrier \<open>sin(2 pi f t + phase)\<close> and its quadrature over a sample window.\<close>

definition sample_times :: "rfsoc \<Rightarrow> int \<Rightarrow> int \<Rightarrow> real list" where
  "sample_times dev start_i end_i =
     map (\<lambda>k. real_of_int k / (dac_sampling_rate dev * 1000000)) [start_i..end_i - 1]"

definition carrier_sin :: "pulse \<Rightarrow> real list \<Rightarrow> real list" where
  "carrier_sin p t = map (\<lambda>x. sin (2 * pi * frequency p * x + relative_phase p)) t"

definition carrier_cos :: "pulse \<Rightarrow> real list \<Rightarrow> real list" where
  "carrier_cos p t = map (\<lambda>x. cos (2 * pi * frequency p * x + relative_phase p)) t"

text \<open>The \<open>DRIVE\<close> branch: carrier times DRAG envelope plus quadrature, or Hamming window.\<close>

definition drive_waveform :: "rfsoc \<Rightarrow> pulse \<Rightarrow> int \<Rightarrow> int \<Rightarrow> py_error + real list" where
  "drive_waveform dev p start_i end_i =
     (let num_samples = end_i - start_i;
          t = sample_times dev start_i end_i;
          wfm = carrier_sin p t
      in case shape p of
           DRAG rel_sigma beta \<Rightarrow>
             if rel_sigma = 0 then Inl ZeroDivisionError
             else
               (let sigma = real_of_int num_samples / rel_sigma in
                case gaussian dev num_samples sigma of
                  Inl e \<Rightarrow> Inl e
                | Inr envelope \<Rightarrow>
                   (case np_binop (*)
                           (map (\<lambda>k. - beta * (real k - real_of_int num_samples / 2))
                                [0..<nat num_samples]) envelope of
                      Inl e \<Rightarrow> Inl e
                    | Inr scaled \<Rightarrow>
                       (let img = map (\<lambda>x. x / sigma\<^sup>2) scaled in
                        case np_inplace (*) wfm envelope of
                          Inl e \<Rightarrow> Inl e
                        | Inr wfm1 \<Rightarrow>
                           (case np_binop (*) img (carrier_cos p t) of
                              Inl e \<Rightarrow> Inl e
                            | Inr quadrature \<Rightarrow> np_inplace (+) wfm1 quadrature))))
         | OtherShape \<Rightarrow>
             (case hamming dev (int (length wfm)) of
                Inl e \<Rightarrow> Inl e
              | Inr window \<Rightarrow> np_inplace (*) wfm window))"

text \<open>
  The part of the loop body that does not touch the buffers: the DAC of the pulse, its
  sample window and its samples \<open>wfm\<close>, per pulse type.
\<close>

definition pulse_window ::
  "rfsoc \<Rightarrow> (nat \<rightharpoonup> qubit_obj) \<Rightarrow> pulse \<Rightarrow> py_error + (nat option \<times> int \<times> int \<times> real list)" where
  "pulse_window dev qubits p =
     (case qubits (qubit p) of
        None \<Rightarrow> Inl KeyError
      | Some qb \<Rightarrow>
         (let rate = dac_sampling_rate dev * 1000000;
              dac = ports_dac dev (channel p);
              start_i = py_int (start p * (1 / 1000000000) * rate);
              end_i = py_int ((start p + pduration p) * (1 / 1000000000) * rate);
              num_samples = end_i - start_i
          in case ptype p of
               FLUX \<Rightarrow>
                 if num_samples < 0 then Inl ValueError
                 else Inr (dac, start_i, end_i, replicate (nat num_samples) 1)
             | DRIVE \<Rightarrow>
                 (case drive_ports qb (channel p) of
                    None \<Rightarrow> Inl KeyError
                  | Some d \<Rightarrow>
                     (case drive_waveform dev p start_i end_i of
                        Inl e \<Rightarrow> Inl e
                      | Inr wfm \<Rightarrow> Inr (Some d, start_i, end_i, wfm)))
             | READOUT \<Rightarrow>
                 (let end_r = py_int (pduration p * (1 / 1000000000) * rate);
                      wfm = carrier_sin p (sample_times dev 0 end_r)
                  in case program_readout dev p of
                       Inl e \<Rightarrow> Inl e
                     | Inr _ \<Rightarrow> Inr (dac, 0, end_r, wfm))))"

record play_state =
  waveform_array :: "nat \<rightharpoonup> real list"
  dac_end_addr :: "nat \<rightharpoonup> int"

text \<open>
  Lines 157 and 158: the scaled samples are added to the window of the DAC buffer, and
  the end address of the DAC is raised to \<open>end >> 4\<close>.
\<close>

definition accumulate ::
  "rfsoc \<Rightarrow> pulse \<Rightarrow> play_state \<Rightarrow> nat option \<times> int \<times> int \<times> real list \<Rightarrow> py_error + play_state" where
  "accumulate dev p st w =
     (case w of
        (dac, start_i, end_i, wfm) \<Rightarrow>
          (case dac of
             None \<Rightarrow> Inl KeyError
           | Some d \<Rightarrow>
              (case waveform_array st d of
                 None \<Rightarrow> Inl KeyError
               | Some arr \<Rightarrow>
                  (case np_iadd_slice arr start_i end_i
                          (map (\<lambda>x. dac_max_amplitude dev * amplitude p * x) wfm) of
                     Inl e \<Rightarrow> Inl e
                   | Inr arr' \<Rightarrow>
                      (case dac_end_addr st d of
                         None \<Rightarrow> Inl KeyError
                       | Some a \<Rightarrow>
                          Inr \<lparr>waveform_array = (waveform_array st)(d \<mapsto> arr'),
                               dac_end_addr = (dac_end_addr st)(d \<mapsto> max (end_i div 16) a)\<rparr>)))))"

definition pulse_step ::
  "rfsoc \<Rightarrow> (nat \<rightharpoonup> qubit_obj) \<Rightarrow> play_state \<Rightarrow> pulse \<Rightarrow> py_error + play_state" where
  "pulse_step dev qubits st p =
     (case pulse_window dev qubits p of
        Inl e \<Rightarrow> Inl e
      | Inr w \<Rightarrow> accumulate dev p st w)"

fun play_loop ::
  "rfsoc \<Rightarrow> (nat \<rightharpoonup> qubit_obj) \<Rightarrow> play_state \<Rightarrow> pulse list \<Rightarrow> py_error + play_state" where
  "play_loop dev qubits st [] = Inr st"
| "play_loop dev qubits st (p # ps) =
     (case pulse_step dev qubits st p of
        Inl e \<Rightarrow> Inl e
      | Inr st' \<Rightarrow> play_loop dev qubits st' ps)"

text \<open>The buffers before the loop: zeros of the length of each DAC, end addresses zero.\<close>

definition play_init :: "rfsoc \<Rightarrow> play_state" where
  "play_init dev =
     \<lparr>waveform_array = (\<lambda>d. map_option (\<lambda>n. replicate n 0) (dac_max_samples dev d)),
      dac_end_addr = (\<lambda>d. map_option (\<lambda>n. 0) (dac_max_samples dev d))\<rparr>"

text \<open>
  \<open>RFSOC.play\<close> up to the upload: the buffers and end addresses after all pulses of the
  sequence.
\<close>

definition play :: "rfsoc \<Rightarrow> (nat \<rightharpoonup> qubit_obj) \<Rightarrow> pulse list \<Rightarrow> py_error + play_state" where
  "play dev qubits pulses = play_loop dev qubits (play_init dev) pulses"

text \<open>The DAC that a pulse is rendered on.\<close>

definition pulse_dac :: "rfsoc \<Rightarrow> (nat \<rightharpoonup> qubit_obj) \<Rightarrow> pulse \<Rightarrow> nat option" where
  "pulse_dac dev qubits p =
     (case pulse_window dev qubits p of Inl e \<Rightarrow> None | Inr w \<Rightarrow> fst w)"

text \<open>The pointwise sum of two buffers of one DAC.\<close>

definition wave_sum :: "real list option \<Rightarrow> real list option \<Rightarrow> real list option" where
  "wave_sum a b =
     (case a of
        None \<Rightarrow> None
      | Some x \<Rightarrow> (case b of None \<Rightarrow> None | Some y \<Rightarrow> Some (map2 (+) x y)))"

section \<open>Demodulation: \<open>RFSOC_RO.process_readout_signal\<close>\<close>

text \<open>
  The raw signal of an ADC is a one-dimensional array of samples or a two-dimensional
  array with one row per shot.  \<open>np.dot\<close> with a vector gives a scalar for the first and
  one value per row for the second; mismatched lengths raise \<open>ValueError\<close>.
\<close>

datatype ndarray = Array1 "real list" | Array2 "real list list"

datatype dot_result = Scalar real | Vector "real list"

definition dot :: "real list \<Rightarrow> real list \<Rightarrow> real" where
  "dot a b = sum_list (map2 (*) a b)"

definition np_dot :: "ndarray \<Rightarrow> real list \<Rightarrow> py_error + dot_result" where
  "np_dot a v =
     (case a of
        Array1 xs \<Rightarrow> if length xs = length v then Inr (Scalar (dot xs v)) else Inl ValueError
      | Array2 rows \<Rightarrow>
          if list_all (\<lambda>r. length r = length v) rows then Inr (Vector (map (\<lambda>r. dot r v) rows))
          else Inl ValueError)"

text \<open>\<open>I + 1j * Q\<close>, with a scalar broadcast against a vector.\<close>

datatype iq_data = IQScalar complex | IQArray "complex list"

fun iq_combine :: "dot_result \<Rightarrow> dot_result \<Rightarrow> py_error + iq_data" where
  "iq_combine (Scalar i) (Scalar q) = Inr (IQScalar (Complex i q))"
| "iq_combine (Vector is) (Vector qs) =
     (if length is = length qs then Inr (IQArray (map2 Complex is qs))
      else if length qs = 1 then Inr (IQArray (map (\<lambda>i. Complex i (hd qs)) is))
      else if length is = 1 then Inr (IQArray (map (\<lambda>q. Complex (hd is) q) qs))
      else Inl ValueError)"
| "iq_combine (Scalar i) (Vector qs) = Inr (IQArray (map (\<lambda>q. Complex i q) qs))"
| "iq_combine (Vector is) (Scalar q) = Inr (IQArray (map (\<lambda>i. Complex i q) is))"

text \<open>
  The class \<open>IntegratedResults\<close> is outside the sources.  A result is the data it was
  built from, either as such or under the \<open>average\<close> property of the class, which is
  kept symbolic.
\<close>

datatype readout_result = IntegratedResults iq_data | AverageOf iq_data

datatype result_key = QubitKey nat | SerialKey string

definition demodulation_times :: "rfsoc \<Rightarrow> real list" where
  "demodulation_times dev =
     map (\<lambda>k. real k / (adc_sampling_rate dev * 1000000)) [0..<adc_sample_size dev]"

text \<open>
  The two reference vectors of one readout pulse, as lines 294 and 295 build them.
\<close>

definition sin_reference :: "pulse \<Rightarrow> real list \<Rightarrow> real list" where
  "sin_reference readout_pulse t = map (\<lambda>x. sin (2 * pi * frequency readout_pulse * x)) t"

definition cos_reference :: "pulse \<Rightarrow> real list \<Rightarrow> real list" where
  "cos_reference readout_pulse t = map (\<lambda>x. sin (2 * pi * frequency readout_pulse * x)) t"

text \<open>One iteration of the loop over the readout pulses.\<close>

definition readout_step ::
  "rfsoc \<Rightarrow> (nat \<rightharpoonup> ndarray) \<Rightarrow> (nat \<rightharpoonup> qubit_obj) \<Rightarrow> bool
     \<Rightarrow> (result_key \<rightharpoonup> readout_result) \<Rightarrow> pulse \<Rightarrow> py_error + (result_key \<rightharpoonup> readout_result)" where
  "readout_step dev adc_raw_data qubits singleshot results readout_pulse =
     (case qubits (qubit readout_pulse) of
        None \<Rightarrow> Inl KeyError
      | Some qb \<Rightarrow>
         (case readout_ports qb of
            [_, adc] \<Rightarrow>
              (case adc_raw_data adc of
                 None \<Rightarrow> Inl KeyError
               | Some raw_signal \<Rightarrow>
                  (let t = demodulation_times dev;
                       sin_ref = sin_reference readout_pulse t;
                       cos_ref = cos_reference readout_pulse t
                   in case np_dot raw_signal cos_ref of
                        Inl e \<Rightarrow> Inl e
                      | Inr i_comp \<Rightarrow>
                         (case np_dot raw_signal sin_ref of
                            Inl e \<Rightarrow> Inl e
                          | Inr q_comp \<Rightarrow>
                             (case iq_combine i_comp q_comp of
                                Inl e \<Rightarrow> Inl e
                              | Inr iq \<Rightarrow>
                                 (let r = (if singleshot then IntegratedResults iq else AverageOf iq)
                                  in Inr (results(QubitKey (qubit readout_pulse) \<mapsto> r,
                                                  SerialKey (serial readout_pulse) \<mapsto> r)))))))
          | _ \<Rightarrow> Inl ValueError))"

fun readout_loop ::
  "rfsoc \<Rightarrow> (nat \<rightharpoonup> ndarray) \<Rightarrow> (nat \<rightharpoonup> qubit_obj) \<Rightarrow> bool
     \<Rightarrow> (result_key \<rightharpoonup> readout_result) \<Rightarrow> pulse list \<Rightarrow> py_error + (result_key \<rightharpoonup> readout_result)" where
  "readout_loop dev adc_raw_data qubits singleshot results [] = Inr results"
| "readout_loop dev adc_raw_data qubits singleshot results (p # ps) =
     (case readout_step dev adc_raw_data qubits singleshot results p of
        Inl e \<Rightarrow> Inl e
      | Inr results' \<Rightarrow> readout_loop dev adc_raw_data qubits singleshot results' ps)"

definition process_readout_signal ::
  "rfsoc \<Rightarrow> (nat \<rightharpoonup> ndarray) \<Rightarrow> pulse list \<Rightarrow> (nat \<rightharpoonup> qubit_obj) \<Rightarrow> bool
     \<Rightarrow> py_error + (result_key \<rightharpoonup> readout_result)" where
  "process_readout_signal dev adc_raw_data sequence qubits singleshot =
     readout_loop dev adc_raw_data qubits singleshot Map.empty sequence"

text \<open>The in-phase and quadrature components of a result agree.\<close>

fun iq_equal :: "iq_data \<Rightarrow> bool" where
  "iq_equal (IQScalar z) = (Re z = Im z)"
| "iq_equal (IQArray zs) = list_all (\<lambda>z. Re z = Im z) zs"

fun result_data :: "readout_result \<Rightarrow> iq_data" where
  "result_data (IntegratedResults d) = d"
| "result_data (AverageOf d) = d"

section \<open>Example configuration\<close>

text \<open>
  A device with two DACs of four samples at 1000 MHz, one qubit, flux pulses of two
  samples and one readout pulse; used to instantiate the statements below.
\<close>

definition example_rfsoc :: rfsoc where
  "example_rfsoc =
     \<lparr>dac_max_samples = [0 \<mapsto> 4, 1 \<mapsto> 4],
      dac_sampling_rate = 1000,
      dac_max_amplitude = 1,
      adc_sampling_rate = 1,
      adc_sample_size = 2,
      ports_dac = (\<lambda>c. if c < 2 then Some c else None),
      gaussian = (\<lambda>m s. Inl ValueError),
      hamming = (\<lambda>m. Inl ValueError),
      program_readout = (\<lambda>p. Inr ())\<rparr>"

definition example_qubits :: "nat \<rightharpoonup> qubit_obj" where
  "example_qubits = [0 \<mapsto> \<lparr>drive_ports = Map.empty, readout_ports = [0, 1]\<rparr>]"

definition example_flux :: "real \<Rightarrow> real \<Rightarrow> nat \<Rightarrow> pulse" where
  "example_flux s a c =
     \<lparr>ptype = FLUX, start = s, pduration = 2, amplitude = a, frequency = 0,
      relative_phase = 0, channel = c, qubit = 0, shape = OtherShape, serial = ''flux''\<rparr>"

definition example_readout :: pulse where
  "example_readout =
     \<lparr>ptype = READOUT, start = 0, pduration = 2, amplitude = 1, frequency = 250000,
      relative_phase = 0, channel = 0, qubit = 0, shape = OtherShape, serial = ''ro''\<rparr>"

section \<open>Scheduler lemmas\<close>

lemma single_step:
  assumes "single_qubit_gate (length ts) g"
  shows "gate_step ts g = Inr (ts[hd (target_qubits g) := ts ! hd (target_qubits g) + duration g])"
proof -
  from assms obtain q where q: "target_qubits g = [q]" "q < length ts"
    by (cases "target_qubits g") (auto simp: single_qubit_gate_def)
  from assms have "gclass g = OtherGate" by (simp add: single_qubit_gate_def)
  with q show ?thesis by (simp add: gate_step_def np_get_def)
qed

lemma duration_on_Cons:
  assumes "single_qubit_gate n g"
  shows "duration_on (g # gs) q
           = (if q = hd (target_qubits g) then duration g else 0) + duration_on gs q"
proof -
  from assms obtain q' where "target_qubits g = [q']"
    by (cases "target_qubits g") (auto simp: single_qubit_gate_def)
  then show ?thesis by (simp add: duration_on_def)
qed

lemma single_loop:
  assumes "list_all (single_qubit_gate (length ts)) gs"
  shows "sequence_loop ts gs = Inr (map (\<lambda>q. ts ! q + duration_on gs q) [0..<length ts])"
  using assms
proof (induction gs arbitrary: ts)
  case Nil
  then show ?case by (simp add: duration_on_def map_nth)
next
  case (Cons g gs)
  let ?q = "hd (target_qubits g)"
  let ?ts = "ts[?q := ts ! ?q + duration g]"
  from Cons.prems have g: "single_qubit_gate (length ts) g"
    and gs: "list_all (single_qubit_gate (length ?ts)) gs" by simp_all
  from g have qlt: "?q < length ts" by (simp add: single_qubit_gate_def)
  have "sequence_loop ts (g # gs) = sequence_loop ?ts gs"
    using single_step [OF g] by simp
  also have "\<dots> = Inr (map (\<lambda>q. ?ts ! q + duration_on gs q) [0..<length ?ts])"
    by (rule Cons.IH [OF gs])
  also have "map (\<lambda>q. ?ts ! q + duration_on gs q) [0..<length ?ts]
           = map (\<lambda>q. ts ! q + duration_on (g # gs) q) [0..<length ts]"
    using qlt by (auto simp: duration_on_Cons [OF g] nth_list_update)
  finally show ?case .
qed

lemma sequence_loop_append:
  "sequence_loop ts (xs @ ys)
     = (case sequence_loop ts xs of Inl e \<Rightarrow> Inl e | Inr ts' \<Rightarrow> sequence_loop ts' ys)"
  by (induction xs arbitrary: ts) (auto split: sum.splits)

lemma align_max_result:
  assumes "align_max ts qs m = Inr r"
  shows "r = Max (insert m ((!) ts ` set qs)) \<and> (\<forall>q\<in>set qs. q < length ts)"
  using assms
proof (induction qs arbitrary: m)
  case Nil
  then show ?case by simp
next
  case (Cons q qs)
  from Cons.prems have q: "q < length ts"
    and rest: "align_max ts qs (max m (ts ! q)) = Inr r"
    by (auto simp: np_get_def split: if_splits)
  from Cons.IH [OF rest]
  have r: "r = Max (insert (max m (ts ! q)) ((!) ts ` set qs))"
    and bound: "\<forall>q\<in>set qs. q < length ts" by simp_all
  have "Max (insert (max m (ts ! q)) ((!) ts ` set qs))
      = Max (insert m (insert (ts ! q) ((!) ts ` set qs)))"
  proof (cases "set qs = {}")
    case True
    then show ?thesis by (simp add: max.commute)
  next
    case False
    then show ?thesis by (simp add: max.assoc)
  qed
  with r q bound show ?case by simp
qed

lemma align_set_result:
  assumes "align_set ts qs m = Inr ts'"
  shows "length ts' = length ts \<and> (\<forall>q\<in>set qs. q < length ts)
       \<and> (\<forall>i<length ts. ts' ! i = (if i \<in> set qs then m else ts ! i))"
  using assms
proof (induction qs arbitrary: ts)
  case Nil
  then show ?case by simp
next
  case (Cons q qs)
  from Cons.prems have q: "q < length ts"
    and rest: "align_set (ts[q := m]) qs m = Inr ts'"
    by (auto split: if_splits)
  from Cons.IH [OF rest] q show ?case
    by (auto simp: nth_list_update)
qed

lemma align_step:
  assumes "gclass g = Align" and "gate_step ts g = Inr ts'"
  shows "target_qubits g \<noteq> [] \<and> length ts' = length ts
       \<and> (\<forall>q\<in>set (target_qubits g). q < length ts)
       \<and> (\<forall>i<length ts. ts' ! i =
            (if i \<in> set (target_qubits g)
             then Max (insert 0 ((!) ts ` set (target_qubits g))) else ts ! i))"
proof -
  from assms obtain m where ne: "target_qubits g \<noteq> []"
    and m: "align_max ts (target_qubits g) 0 = Inr m"
    and s: "align_set ts (target_qubits g) m = Inr ts'"
    by (auto simp: gate_step_def split: list.splits sum.splits)
  from align_max_result [OF m] align_set_result [OF s] ne show ?thesis by simp
qed

lemma gate_step_length:
  assumes "gate_step ts g = Inr ts'"
  shows "length ts' = length ts"
proof (cases "gclass g")
  case Align
  with assms align_step show ?thesis by blast
next
  case CNOT
  with assms show ?thesis
    by (auto simp: gate_step_def np_get_def Let_def split: list.splits if_splits)
next
  case OtherGate
  with assms show ?thesis
    by (auto simp: gate_step_def np_get_def split: list.splits if_splits)
qed

lemma gate_step_nonneg:
  assumes step: "gate_step ts g = Inr ts'"
    and nonneg: "\<forall>i<length ts. 0 \<le> ts ! i"
    and dur: "0 \<le> duration g"
  shows "\<forall>i<length ts'. 0 \<le> ts' ! i"
proof (cases "gclass g")
  case Align
  note st = align_step [OF Align step]
  have "0 \<le> Max (insert 0 ((!) ts ` set (target_qubits g)))" by simp
  with st nonneg show ?thesis by auto
next
  case CNOT
  with step nonneg dur show ?thesis
    by (auto simp: gate_step_def np_get_def Let_def nth_list_update max_def
             split: list.splits if_splits)
next
  case OtherGate
  with step nonneg dur show ?thesis
    by (auto simp: gate_step_def np_get_def nth_list_update split: list.splits if_splits)
qed

lemma sequence_loop_nonneg:
  assumes "sequence_loop ts gs = Inr ts'"
    and "\<forall>i<length ts. 0 \<le> ts ! i"
    and "\<forall>g\<in>set gs. 0 \<le> duration g"
  shows "\<forall>i<length ts'. 0 \<le> ts' ! i"
  using assms
proof (induction gs arbitrary: ts)
  case Nil
  then show ?case by simp
next
  case (Cons g gs)
  from Cons.prems(1) obtain ts1 where s1: "gate_step ts g = Inr ts1"
    and s2: "sequence_loop ts1 gs = Inr ts'"
    by (auto split: sum.splits)
  from gate_step_nonneg [OF s1 Cons.prems(2)] Cons.prems(3)
  have "\<forall>i<length ts1. 0 \<le> ts1 ! i" by simp
  from Cons.IH [OF s2 this] Cons.prems(3) show ?case by simp
qed

lemma sequence_loop_length:
  "sequence_loop ts gs = Inr ts' \<Longrightarrow> length ts' = length ts"
proof (induction gs arbitrary: ts)
  case Nil
  then show ?case by simp
next
  case (Cons g gs)
  then show ?case by (auto split: sum.splits dest: gate_step_length)
qed

lemma gate_step_error:
  "gate_step ts g = Inl e \<Longrightarrow> e = IndexError"
proof -
  have am: "\<And>qs m. align_max ts qs m = Inl e \<Longrightarrow> e = IndexError"
  proof -
    fix qs m show "align_max ts qs m = Inl e \<Longrightarrow> e = IndexError"
      by (induction qs arbitrary: m) (auto simp: np_get_def split: if_splits)
  qed
  have as: "\<And>qs m us. align_set us qs m = Inl e \<Longrightarrow> e = IndexError"
  proof -
    fix qs m us show "align_set us qs m = Inl e \<Longrightarrow> e = IndexError"
      by (induction qs arbitrary: us) (auto split: if_splits)
  qed
  assume "gate_step ts g = Inl e"
  then show ?thesis
    by (auto simp: gate_step_def np_get_def Let_def
             split: list.splits gate_class.splits sum.splits if_splits dest: am as)
qed

lemma sequence_loop_error:
  "sequence_loop ts gs = Inl e \<Longrightarrow> e = IndexError"
  by (induction gs arbitrary: ts) (auto split: sum.splits dest: gate_step_error)

lemma sequence_loop_targets:
  "sequence_loop ts gs = Inr ts' \<Longrightarrow> \<forall>g\<in>set gs. target_qubits g \<noteq> []"
proof (induction gs arbitrary: ts)
  case Nil
  then show ?case by simp
next
  case (Cons g gs)
  then show ?case
    by (auto simp: gate_step_def split: sum.splits list.splits)
qed

section \<open>Scheduler claims\<close>

text \<open>
  Claim C1.  For a gate queue that holds only single-qubit gates (no barrier, no two-qubit
  gate), \<open>_execute_sequence\<close> computes for every qubit \<open>q\<close> of the register the start time
  \<open>readout_start_time\<close> minus the sum of the durations of the gates that target \<open>q\<close>; this
  is \<open>readout_start_time\<close> minus the value of \<open>_calculate_sequence_duration\<close>, so each
  start time plus the total duration on that qubit is the readout instant.
\<close>

theorem start_times_backward_from_readout:
  assumes "list_all (single_qubit_gate n) gs"
  shows "execute_sequence_qubit_times rst n gs
           = Inr (map (\<lambda>q. rst - duration_on gs q) [0..<n])
       \<and> calculate_sequence_duration n gs = Inr (map (duration_on gs) [0..<n])"
proof -
  have "list_all (single_qubit_gate (length (replicate n (0::real)))) gs"
    using assms by simp
  from single_loop [OF this]
  have "calculate_sequence_duration n gs = Inr (map (duration_on gs) [0..<n])"
    by (simp add: calculate_sequence_duration_def)
  then show ?thesis
    by (simp add: execute_sequence_qubit_times_def comp_def)
qed

theorem start_times_backward_from_readout_witness:
  "list_all (single_qubit_gate 2)
     [\<lparr>gclass = OtherGate, target_qubits = [0], control_qubits = [], duration = 3\<rparr>,
      \<lparr>gclass = OtherGate, target_qubits = [1], control_qubits = [], duration = 4\<rparr>,
      \<lparr>gclass = OtherGate, target_qubits = [0], control_qubits = [], duration = 2\<rparr>]
   \<and> execute_sequence_qubit_times 10 2
     [\<lparr>gclass = OtherGate, target_qubits = [0], control_qubits = [], duration = 3\<rparr>,
      \<lparr>gclass = OtherGate, target_qubits = [1], control_qubits = [], duration = 4\<rparr>,
      \<lparr>gclass = OtherGate, target_qubits = [0], control_qubits = [], duration = 2\<rparr>]
     = Inr [5, 6]"
proof -
  let ?gs = "[\<lparr>gclass = OtherGate, target_qubits = [0], control_qubits = [], duration = 3\<rparr>,
      \<lparr>gclass = OtherGate, target_qubits = [1], control_qubits = [], duration = 4\<rparr>,
      \<lparr>gclass = OtherGate, target_qubits = [0], control_qubits = [], duration = 2\<rparr>]"
  have h: "list_all (single_qubit_gate 2) ?gs" by (simp add: single_qubit_gate_def)
  have up: "[0..<2] = [0, Suc 0]" by (simp add: upt_rec)
  have d: "map (\<lambda>q. 10 - duration_on ?gs q) [0..<2] = [5, 6]"
    by (simp add: up duration_on_def)
  from start_times_backward_from_readout [OF h, of 10] h d show ?thesis by simp
qed

text \<open>
  Claim C3, as the code has it.  The \<open>Align\<close> branch starts its running maximum at
  \<open>m = 0\<close>.  When \<open>_calculate_sequence_duration\<close> processes the queue up to and including
  an \<open>Align\<close> gate, every qubit of its target set holds the same clock value right after
  it: the maximum of 0 and the clock values that the target set held just before.  When
  the gates before the \<open>Align\<close> have non-negative durations, no clock is negative and that
  value is the maximum over the target set of the clock values held just before.
\<close>

theorem align_synchronises_targets:
  assumes "gclass g = Align"
    and "calculate_sequence_duration n pre = Inr before"
    and "calculate_sequence_duration n (pre @ [g]) = Inr after"
  shows "(\<forall>q\<in>set (target_qubits g).
            after ! q = Max (insert 0 ((!) before ` set (target_qubits g))))
       \<and> ((\<forall>h\<in>set pre. 0 \<le> duration h) \<longrightarrow>
            (\<forall>q\<in>set (target_qubits g). after ! q = Max ((!) before ` set (target_qubits g))))"
proof -
  from assms(2) have pre: "sequence_loop (replicate n 0) pre = Inr before"
    by (simp add: calculate_sequence_duration_def)
  with assms(3) have step: "gate_step before g = Inr after"
    by (simp add: calculate_sequence_duration_def sequence_loop_append split: sum.splits)
  note st = align_step [OF assms(1) step]
  let ?S = "(!) before ` set (target_qubits g)"
  from st have seeded: "\<forall>q\<in>set (target_qubits g). after ! q = Max (insert 0 ?S)"
    by auto
  have "Max (insert 0 ?S) = Max ?S" if dur: "\<forall>h\<in>set pre. 0 \<le> duration h"
  proof -
    from sequence_loop_nonneg [OF pre] dur
    have nonneg: "\<forall>i<length before. 0 \<le> before ! i" by simp
    from st have ne: "?S \<noteq> {}" and inside: "\<forall>q\<in>set (target_qubits g). q < length before"
      by simp_all
    from inside nonneg have "\<forall>x\<in>?S. 0 \<le> x" by auto
    with ne have "0 \<le> Max ?S" by (meson List.finite_set Max_in finite_imageI)
    with ne show ?thesis by (simp add: max_def)
  qed
  with seeded show ?thesis by simp
qed

theorem align_synchronises_targets_witness:
  "calculate_sequence_duration 3
     [\<lparr>gclass = OtherGate, target_qubits = [0], control_qubits = [], duration = 3\<rparr>,
      \<lparr>gclass = OtherGate, target_qubits = [2], control_qubits = [], duration = 7\<rparr>] = Inr [3, 0, 7]
   \<and> calculate_sequence_duration 3
     ([\<lparr>gclass = OtherGate, target_qubits = [0], control_qubits = [], duration = 3\<rparr>,
       \<lparr>gclass = OtherGate, target_qubits = [2], control_qubits = [], duration = 7\<rparr>]
      @ [\<lparr>gclass = Align, target_qubits = [0, 1], control_qubits = [], duration = 0\<rparr>]) = Inr [3, 3, 7]
   \<and> [3, 3, 7 :: real] ! 0 = Max (insert 0 ((!) [3, 0, 7] ` set [0, 1]))
   \<and> [3, 3, 7 :: real] ! 1 = Max (insert 0 ((!) [3, 0, 7] ` set [0, 1]))
   \<and> [3, 3, 7 :: real] ! 0 = Max ((!) [3, 0, 7] ` set [0, 1])
   \<and> [3, 3, 7 :: real] ! 1 = Max ((!) [3, 0, 7] ` set [0, 1])"
proof -
  let ?pre = "[\<lparr>gclass = OtherGate, target_qubits = [0], control_qubits = [], duration = 3\<rparr>,
      \<lparr>gclass = OtherGate, target_qubits = [2], control_qubits = [], duration = 7\<rparr>]"
  let ?g = "\<lparr>gclass = Align, target_qubits = [0, 1], control_qubits = [], duration = 0\<rparr>"
  have r3: "replicate 3 (0::real) = [0, 0, 0]" by (simp add: numeral_3_eq_3)
  have a: "calculate_sequence_duration 3 ?pre = Inr [3, 0, 7]"
    by (simp add: calculate_sequence_duration_def r3 gate_step_def np_get_def)
  have b: "calculate_sequence_duration 3 (?pre @ [?g]) = Inr [3, 3, 7]"
    by (simp add: calculate_sequence_duration_def r3 gate_step_def np_get_def)
  have c: "\<forall>h\<in>set ?pre. 0 \<le> duration h" by simp
  from align_synchronises_targets [OF _ a b] a b c show ?thesis by simp
qed

text \<open>
  Claim C3, as the specification words it, fails: the value after the \<open>Align\<close> is never
  below the seed 0.  Two gates of durations -2 and -3 leave the clocks of a two-qubit
  register at -2 and -3; the \<open>Align\<close> over both qubits sets them to 0, while the
  maximum of the clocks held before it is -2.
\<close>

theorem align_maximum_counterexample:
  "calculate_sequence_duration 2
     [\<lparr>gclass = OtherGate, target_qubits = [0], control_qubits = [], duration = -2\<rparr>,
      \<lparr>gclass = OtherGate, target_qubits = [1], control_qubits = [], duration = -3\<rparr>] = Inr [-2, -3]
   \<and> calculate_sequence_duration 2
     [\<lparr>gclass = OtherGate, target_qubits = [0], control_qubits = [], duration = -2\<rparr>,
      \<lparr>gclass = OtherGate, target_qubits = [1], control_qubits = [], duration = -3\<rparr>,
      \<lparr>gclass = Align, target_qubits = [0, 1], control_qubits = [], duration = 0\<rparr>] = Inr [0, 0]
   \<and> [0, 0 :: real] ! 0 \<noteq> Max ((!) [-2, -3] ` set [0, 1])"
proof -
  have r2: "replicate 2 (0::real) = [0, 0]" by (simp add: numeral_2_eq_2)
  show ?thesis
    by (simp add: calculate_sequence_duration_def r2 gate_step_def np_get_def)
qed

text \<open>
  Claim C4, as the code has it.  The scheduler synchronises the operands of a gate of
  class \<open>CNOT\<close>, the only class its two-qubit branch tests for: right after such a gate
  the control and the target qubit hold the same clock value, the maximum of their two
  clock values before the gate plus the duration of the gate.
\<close>

theorem cnot_synchronises_operands:
  assumes "gclass g = CNOT"
    and "calculate_sequence_duration n pre = Inr before"
    and "calculate_sequence_duration n (pre @ [g]) = Inr after"
  shows "after ! hd (control_qubits g) = after ! hd (target_qubits g)
       \<and> after ! hd (target_qubits g)
           = max (before ! hd (target_qubits g)) (before ! hd (control_qubits g)) + duration g"
proof -
  from assms(2) have pre: "sequence_loop (replicate n 0) pre = Inr before"
    by (simp add: calculate_sequence_duration_def)
  with assms(3) have step: "gate_step before g = Inr after"
    by (simp add: calculate_sequence_duration_def sequence_loop_append split: sum.splits)
  from step assms(1) obtain q qs c cs where tq: "target_qubits g = q # qs"
    and cq: "control_qubits g = c # cs" and q: "q < length before" and c: "c < length before"
    and after: "after = (before[q := max (before ! q) (before ! c) + duration g])
                          [c := (before[q := max (before ! q) (before ! c) + duration g]) ! q]"
    by (auto simp: gate_step_def np_get_def Let_def split: list.splits if_splits)
  from q c show ?thesis
    by (simp add: tq cq after nth_list_update)
qed

theorem cnot_synchronises_operands_witness:
  "calculate_sequence_duration 2
     [\<lparr>gclass = OtherGate, target_qubits = [0], control_qubits = [], duration = 3\<rparr>] = Inr [3, 0]
   \<and> calculate_sequence_duration 2
     ([\<lparr>gclass = OtherGate, target_qubits = [0], control_qubits = [], duration = 3\<rparr>]
      @ [\<lparr>gclass = CNOT, target_qubits = [1], control_qubits = [0], duration = 5\<rparr>]) = Inr [8, 8]
   \<and> [8, 8 :: real] ! 0 = [8, 8] ! 1
   \<and> [8, 8 :: real] ! 1 = max ([3, 0] ! 1) ([3, 0] ! 0) + 5"
proof -
  let ?pre = "[\<lparr>gclass = OtherGate, target_qubits = [0], control_qubits = [], duration = 3\<rparr>]"
  let ?g = "\<lparr>gclass = CNOT, target_qubits = [1], control_qubits = [0], duration = 5\<rparr>"
  have r2: "replicate 2 (0::real) = [0, 0]" by (simp add: numeral_2_eq_2)
  have a: "calculate_sequence_duration 2 ?pre = Inr [3, 0]"
    by (simp add: calculate_sequence_duration_def r2 gate_step_def np_get_def)
  have b: "calculate_sequence_duration 2 (?pre @ [?g]) = Inr [8, 8]"
    by (simp add: calculate_sequence_duration_def r2 gate_step_def np_get_def)
  from cnot_synchronises_operands [OF _ a b] a b show ?thesis by simp
qed

text \<open>
  Claim C4, as the specification words it, fails: a controlled two-qubit gate whose class
  is not \<open>CNOT\<close> (qibo's \<open>CZ\<close>, say) takes the default branch, which advances the
  target qubit only.  In a two-qubit register the gate below with control 0, target 1
  and duration 5 leaves the clocks at 0 and 5.
\<close>

theorem controlled_gate_symmetry_counterexample:
  "calculate_sequence_duration 2
     [\<lparr>gclass = OtherGate, target_qubits = [1], control_qubits = [0], duration = 5\<rparr>] = Inr [0, 5]
   \<and> [0, 5 :: real] ! 0 \<noteq> [0, 5] ! 1"
proof -
  have r2: "replicate 2 (0::real) = [0, 0]" by (simp add: numeral_2_eq_2)
  show ?thesis
    by (simp add: calculate_sequence_duration_def r2 gate_step_def np_get_def)
qed

text \<open>
  Claim C6, as the code has it.  A queue that contains a gate with an empty target tuple
  makes \<open>_calculate_sequence_duration\<close> raise \<open>IndexError\<close> (the read of
  \<open>gate.target_qubits[0]\<close>, or an earlier index error); the empty queue for \<open>n\<close> qubits
  yields \<open>n\<close> zeros.
\<close>

theorem empty_targets_raise_index_error:
  "((\<exists>g\<in>set gs. target_qubits g = []) \<longrightarrow> calculate_sequence_duration n gs = Inl IndexError)
   \<and> calculate_sequence_duration n [] = Inr (replicate n 0)"
proof -
  have "calculate_sequence_duration n gs = Inl IndexError" if "\<exists>g\<in>set gs. target_qubits g = []"
  proof (cases "sequence_loop (replicate n 0) gs")
    case (Inl e)
    with sequence_loop_error show ?thesis
      by (simp add: calculate_sequence_duration_def)
  next
    case (Inr ts')
    from sequence_loop_targets [OF this] that show ?thesis by blast
  qed
  then show ?thesis by (simp add: calculate_sequence_duration_def)
qed

theorem empty_targets_raise_index_error_witness:
  "(\<exists>g\<in>set [\<lparr>gclass = OtherGate, target_qubits = [0], control_qubits = [], duration = 3\<rparr>,
              \<lparr>gclass = Align, target_qubits = [], control_qubits = [], duration = 0\<rparr>].
      target_qubits g = [])
   \<and> calculate_sequence_duration 1
       [\<lparr>gclass = OtherGate, target_qubits = [0], control_qubits = [], duration = 3\<rparr>,
        \<lparr>gclass = Align, target_qubits = [], control_qubits = [], duration = 0\<rparr>] = Inl IndexError
   \<and> calculate_sequence_duration 1 [] = Inr [0]"
  using empty_targets_raise_index_error [of
       "[\<lparr>gclass = OtherGate, target_qubits = [0], control_qubits = [], duration = 3\<rparr>,
         \<lparr>gclass = Align, target_qubits = [], control_qubits = [], duration = 0\<rparr>]" 1]
  by simp

text \<open>
  Claim C6, as the specification words it, fails: the error raised for a gate without
  target qubits is \<open>IndexError\<close>, not \<open>InvalidGateError\<close>.
\<close>

theorem invalid_gate_error_counterexample:
  "calculate_sequence_duration 1
     [\<lparr>gclass = OtherGate, target_qubits = [], control_qubits = [], duration = 1\<rparr>] = Inl IndexError
   \<and> calculate_sequence_duration 1
     [\<lparr>gclass = OtherGate, target_qubits = [], control_qubits = [], duration = 1\<rparr>]
       \<noteq> Inl InvalidGateError"
  by (simp add: calculate_sequence_duration_def gate_step_def)

section \<open>Calibration, dispatch and sweep claims\<close>

text \<open>
  What the rotation does achieve.  The value always lies between 0 and 1, and unless
  \<open>refer_1\<close> lies straight to the left of \<open>refer_0\<close> the rotated \<open>refer_1\<close> has a positive
  first coordinate, so that \<open>data = refer_0\<close> gives 0 and \<open>data = refer_1\<close> gives 1.
\<close>

lemma clip_ratio_range:
  fixes x r :: real
  shows "0 \<le> (if x < 0 then 0 else if x > r then r else x) / r
       \<and> (if x < 0 then 0 else if x > r then r else x) / r \<le> 1"
  by (cases "r = 0") (auto simp: divide_le_eq_1 zero_le_divide_iff)

lemma probability_extraction_range:
  "0 \<le> probability_extraction data refer_0 refer_1
   \<and> probability_extraction data refer_0 refer_1 \<le> 1"
  unfolding probability_extraction_def Let_def by (rule clip_ratio_range)

lemma rotated_reference:
  fixes a b :: real
  assumes "b \<noteq> 0"
  defines "angle \<equiv> arccos (a / sqrt (a\<^sup>2 + b\<^sup>2)) * sgn b"
  shows "a * cos angle + b * sin angle = sqrt (a\<^sup>2 + b\<^sup>2)"
proof -
  let ?r = "sqrt (a\<^sup>2 + b\<^sup>2)"
  let ?c = "a / ?r"
  from assms(1) have rpos: "0 < ?r" by (simp add: sum_power2_gt_zero_iff)
  have "sqrt (a\<^sup>2) \<le> ?r" by simp
  then have "\<bar>a\<bar> \<le> ?r" by simp
  with rpos have c: "-1 \<le> ?c" "?c \<le> 1" by (simp_all add: field_simps abs_le_iff)
  have r2: "?r\<^sup>2 = a\<^sup>2 + b\<^sup>2" by simp
  have "a\<^sup>2 / (a\<^sup>2 + b\<^sup>2) + b\<^sup>2 / (a\<^sup>2 + b\<^sup>2) = (a\<^sup>2 + b\<^sup>2) / (a\<^sup>2 + b\<^sup>2)"
    by (simp only: add_divide_distrib)
  also have "\<dots> = 1" using assms(1) by simp
  finally have "a\<^sup>2 / (a\<^sup>2 + b\<^sup>2) = 1 - b\<^sup>2 / (a\<^sup>2 + b\<^sup>2)" by linarith
  moreover have "?c\<^sup>2 = a\<^sup>2 / (a\<^sup>2 + b\<^sup>2)" by (simp add: power_divide)
  ultimately have "1 - ?c\<^sup>2 = b\<^sup>2 / ?r\<^sup>2" by simp
  then have s: "sqrt (1 - ?c\<^sup>2) = \<bar>b\<bar> / ?r"
    using rpos by (simp add: real_sqrt_divide)
  have sg: "sgn b = 1 \<or> sgn b = -1" using assms(1) by (auto simp: sgn_real_def)
  have cosa: "cos angle = ?c" using sg c by (auto simp: angle_def)
  have sina: "sin angle = sgn b * (\<bar>b\<bar> / ?r)"
    using sg c s by (auto simp: angle_def sin_arccos)
  have "b * (sgn b * (\<bar>b\<bar> / ?r)) = b\<^sup>2 / ?r"
    by (simp add: sgn_real_def power2_eq_square)
  then have "a * cos angle + b * sin angle = (a\<^sup>2 + b\<^sup>2) / ?r"
    by (simp add: cosa sina power2_eq_square add_divide_distrib)
  also have "\<dots> = ?r" using rpos by (metis r2 power2_eq_square nonzero_mult_div_cancel_left less_irrefl)
  finally show ?thesis .
qed

lemma probability_extraction_endpoints:
  assumes "snd refer_1 \<noteq> snd refer_0 \<or> fst refer_0 < fst refer_1"
  shows "probability_extraction refer_0 refer_0 refer_1 = 0
       \<and> probability_extraction refer_1 refer_0 refer_1 = 1"
proof -
  define a where "a = fst refer_1 - fst refer_0"
  define b where "b = snd refer_1 - snd refer_0"
  define angle where "angle = arccos (a / sqrt (a\<^sup>2 + b\<^sup>2)) * sgn b"
  have pos: "0 < a * cos angle + b * sin angle"
  proof (cases "b = 0")
    case True
    with assms show ?thesis by (simp add: angle_def a_def b_def)
  next
    case False
    from rotated_reference [OF False, of a] False show ?thesis
      by (simp add: angle_def sum_power2_gt_zero_iff)
  qed
  then show ?thesis
    by (simp add: probability_extraction_def Let_def a_def b_def angle_def)
qed

text \<open>
  Claim C2 does not hold in the code when \<open>refer_1\<close> lies straight to the left of
  \<open>refer_0\<close> (same second coordinate, smaller first one): \<open>np.sign\<close> of the zero second
  coordinate cancels the rotation angle \<open>pi\<close>, the rotated \<open>refer_1\<close> keeps its negative
  first coordinate, and the clipping returns 1 for \<open>data = refer_0\<close> and 0 for
  \<open>data = refer_1\<close>.
\<close>

theorem rotation_lost_on_negative_axis:
  "probability_extraction (0, 0) (0, 0) (-1, 0) = 1
   \<and> probability_extraction (-1, 0) (0, 0) (-1, 0) = 0"
  by (simp add: probability_extraction_def)

text \<open>
  Claim C7 does not hold in the code: with a measurement gate registered, no initial
  state, a boolean tomography flag and a boolean density-matrix mode, \<open>execute\<close> fetches
  the configuration, consults the flag and then applies \<open>len\<close> to a boolean, which raises
  \<open>TypeError\<close>; neither execution path is entered.
\<close>

theorem execute_raises_on_boolean_flag:
  "execute (b\<lparr>tomography_required := PyBool f\<rparr>)
           (c\<lparr>measurement_gate := Some m, density_matrix := PyBool d\<rparr>) PyNone nshots
     = ([FetchConfig, CheckTomographyRequired], Inl TypeError)"
  by (simp add: execute_def py_or_def)

text \<open>
  Claim C8.  Whatever sweepers \<open>RFSOC_RO.sweep\<close> receives, the guard compares their tuple
  with an integer and raises \<open>TypeError\<close>: no sweep value is applied, the sequence is not
  played, and the \<open>NotImplementedError\<close> of the guard is not reached.
\<close>

theorem sweep_guard_raises_type_error:
  "sweep sweepers = ([], Inl TypeError)"
  by (simp add: sweep_def)

text \<open>
  Claim C9.  \<open>__call__\<close> passes three positional arguments to \<open>execute\<close>, which takes two:
  every call raises \<open>TypeError\<close> with no scheduler call made.
\<close>

theorem call_raises_type_error:
  "call b c initial_state nshots measurement_level = ([], Inl TypeError)"
  by (simp add: call_def execute_positional_def)

section \<open>Waveform superposition\<close>

lemma map2_add_zeros_right:
  "length xs = n \<Longrightarrow> map2 (+) xs (replicate n (0::real)) = xs"
  by (rule nth_equalityI) simp_all

lemma map2_add_zeros_left:
  "length xs = n \<Longrightarrow> map2 (+) (replicate n (0::real)) xs = xs"
  by (rule nth_equalityI) simp_all

lemma iadd_length:
  "np_iadd_slice arr s e v = Inr arr' \<Longrightarrow> length arr' = length arr"
  by (auto simp: np_iadd_slice_def split: prod.splits if_splits)

lemma iadd_shift:
  assumes "np_iadd_slice (replicate n 0) s e v = Inr w" and "length arr = n"
  shows "np_iadd_slice arr s e v = Inr (map2 (+) arr w)"
proof -
  obtain lo hi where sl: "slice_indices n s e = (lo, hi)" by (cases "slice_indices n s e")
  show ?thesis
  proof (cases "length v = hi - lo")
    case True
    with assms sl have w: "w = map (\<lambda>i. if lo \<le> i \<and> i < hi then 0 + v ! (i - lo) else 0) [0..<n]"
      by (auto simp: np_iadd_slice_def)
    have "map (\<lambda>i. if lo \<le> i \<and> i < hi then arr ! i + v ! (i - lo) else arr ! i) [0..<n]
            = map2 (+) arr w"
      using assms(2) by (intro nth_equalityI) (simp_all add: w)
    with True assms(2) sl show ?thesis by (simp add: np_iadd_slice_def)
  next
    case False
    with assms sl have one: "length v = 1"
      and w: "w = map (\<lambda>i. if lo \<le> i \<and> i < hi then 0 + v ! 0 else 0) [0..<n]"
      by (auto simp: np_iadd_slice_def split: if_splits)
    have "map (\<lambda>i. if lo \<le> i \<and> i < hi then arr ! i + v ! 0 else arr ! i) [0..<n]
            = map2 (+) arr w"
      using assms(2) by (intro nth_equalityI) (simp_all add: w)
    with False one assms(2) sl show ?thesis by (simp add: np_iadd_slice_def)
  qed
qed

lemma play_single:
  assumes "play dev qubits [p] = Inr s"
  obtains d a e v n arr where
    "pulse_window dev qubits p = Inr (Some d, a, e, v)"
    "dac_max_samples dev d = Some n"
    "np_iadd_slice (replicate n 0) a e (map (\<lambda>x. dac_max_amplitude dev * amplitude p * x) v) = Inr arr"
    "length arr = n"
    "waveform_array s = (waveform_array (play_init dev))(d \<mapsto> arr)"
proof -
  from assms obtain w where w: "pulse_window dev qubits p = Inr w"
    and acc: "accumulate dev p (play_init dev) w = Inr s"
    by (auto simp: play_def pulse_step_def split: sum.splits)
  obtain dac a e v where weq: "w = (dac, a, e, v)" by (cases w)
  from acc weq obtain d where d: "dac = Some d"
    by (cases dac) (auto simp: accumulate_def)
  from acc weq d obtain n where n: "dac_max_samples dev d = Some n"
    by (cases "dac_max_samples dev d") (auto simp: accumulate_def play_init_def)
  from acc weq d n obtain arr where
    arr: "np_iadd_slice (replicate n 0) a e (map (\<lambda>x. dac_max_amplitude dev * amplitude p * x) v) = Inr arr"
    and s: "waveform_array s = (waveform_array (play_init dev))(d \<mapsto> arr)"
    by (auto simp: accumulate_def play_init_def split: sum.splits)
  from iadd_length [OF arr] have "length arr = n" by simp
  with w weq d n arr s that show ?thesis by blast
qed

lemma init_wave:
  "waveform_array (play_init dev) d = map_option (\<lambda>n. replicate n 0) (dac_max_samples dev d)"
  by (simp add: play_init_def)

text \<open>
  Claim C5.  \<open>RFSOC.play\<close> adds the samples of each pulse to the window of its DAC buffer.
  When each of two pulses compiles alone, the two-pulse sequence compiles as well and every
  DAC buffer is the pointwise sum of the buffers of the two single-pulse compilations; over
  the reals this needs no assumption on the windows, so it covers the non-overlapping ones.
  When the two pulses are rendered on different DACs, each of the two buffers equals the
  buffer of the single-pulse compilation of its own pulse.
\<close>

theorem waveform_superposition:
  assumes "play dev qubits [p1] = Inr s1" and "play dev qubits [p2] = Inr s2"
  shows "\<exists>s12. play dev qubits [p1, p2] = Inr s12
           \<and> (\<forall>d. waveform_array s12 d = wave_sum (waveform_array s1 d) (waveform_array s2 d))
           \<and> (pulse_dac dev qubits p1 \<noteq> pulse_dac dev qubits p2 \<longrightarrow>
                (\<forall>d. pulse_dac dev qubits p1 = Some d \<longrightarrow> waveform_array s12 d = waveform_array s1 d)
              \<and> (\<forall>d. pulse_dac dev qubits p2 = Some d \<longrightarrow> waveform_array s12 d = waveform_array s2 d))"
proof -
  from assms(1) obtain d1 a1 e1 v1 n1 arr1 where
    w1: "pulse_window dev qubits p1 = Inr (Some d1, a1, e1, v1)"
    and n1: "dac_max_samples dev d1 = Some n1"
    and l1: "length arr1 = n1"
    and s1: "waveform_array s1 = (waveform_array (play_init dev))(d1 \<mapsto> arr1)"
    by (rule play_single)
  from assms(2) obtain d2 a2 e2 v2 n2 arr2 where
    w2: "pulse_window dev qubits p2 = Inr (Some d2, a2, e2, v2)"
    and n2: "dac_max_samples dev d2 = Some n2"
    and i2: "np_iadd_slice (replicate n2 0) a2 e2
               (map (\<lambda>x. dac_max_amplitude dev * amplitude p2 * x) v2) = Inr arr2"
    and l2: "length arr2 = n2"
    and s2: "waveform_array s2 = (waveform_array (play_init dev))(d2 \<mapsto> arr2)"
    by (rule play_single)
  from assms(1) have step1: "pulse_step dev qubits (play_init dev) p1 = Inr s1"
    by (simp add: play_def split: sum.splits)
  from step1 w1 have e1: "dac_end_addr s1 d2 \<noteq> None"
    using n2 by (auto simp: pulse_step_def accumulate_def play_init_def split: option.splits sum.splits)
  then obtain addr where addr: "dac_end_addr s1 d2 = Some addr" by blast
  define old where "old = (if d2 = d1 then arr1 else replicate n2 0)"
  have old: "waveform_array s1 d2 = Some old" and lold: "length old = n2"
    using n1 n2 l1 by (auto simp: s1 old_def init_wave)
  define s12 where "s12 = \<lparr>waveform_array = (waveform_array s1)(d2 \<mapsto> map2 (+) old arr2),
                            dac_end_addr = (dac_end_addr s1)(d2 \<mapsto> max (e2 div 16) addr)\<rparr>"
  have "pulse_step dev qubits s1 p2 = Inr s12"
    using w2 old addr iadd_shift [OF i2 lold]
    by (simp add: pulse_step_def accumulate_def s12_def)
  with step1 have run: "play dev qubits [p1, p2] = Inr s12"
    by (simp add: play_def)
  have wave: "waveform_array s12 = (waveform_array s1)(d2 \<mapsto> map2 (+) old arr2)"
    by (simp add: s12_def)
  have sum: "waveform_array s12 d = wave_sum (waveform_array s1 d) (waveform_array s2 d)" for d
  proof (cases "d = d2")
    case True
    then show ?thesis using old by (simp add: wave s2 wave_sum_def)
  next
    case other: False
    show ?thesis
    proof (cases "d = d1")
      case True
      with other n1 l1 show ?thesis
        by (simp add: wave s1 s2 wave_sum_def init_wave map2_add_zeros_right)
    next
      case False
      with other show ?thesis
        by (cases "dac_max_samples dev d")
           (simp_all add: wave s1 s2 wave_sum_def init_wave map2_add_zeros_right)
    qed
  qed
  have dacs: "pulse_dac dev qubits p1 = Some d1" "pulse_dac dev qubits p2 = Some d2"
    using w1 w2 by (simp_all add: pulse_dac_def)
  have apart: "waveform_array s12 d1 = waveform_array s1 d1
             \<and> waveform_array s12 d2 = waveform_array s2 d2" if "d1 \<noteq> d2"
    using that l2 by (simp add: wave s2 old_def map2_add_zeros_left)
  from run sum dacs apart show ?thesis by auto
qed

lemma up4: "[0..<4] = [0, 1, 2, 3]" by (simp add: eval_nat_numeral)

lemma ex_window1: "pulse_window example_rfsoc example_qubits (example_flux 0 (1/2) 0) = Inr (Some 0, 0, 2, [1, 1])"
  by (simp add: pulse_window_def example_rfsoc_def example_qubits_def example_flux_def py_int_def
        eval_nat_numeral)

lemma ex_window2: "pulse_window example_rfsoc example_qubits (example_flux 2 (1/4) 0) = Inr (Some 0, 2, 4, [1, 1])"
  by (simp add: pulse_window_def example_rfsoc_def example_qubits_def example_flux_def py_int_def
        eval_nat_numeral)

lemma ex_iadd1: "np_iadd_slice [0, 0, 0, 0] 0 2 [1/2, 1/2] = Inr [1/2, 1/2, 0, 0]"
  by (simp add: np_iadd_slice_def slice_indices_def up4)

lemma ex_iadd2: "np_iadd_slice [0, 0, 0, 0] 2 4 [1/4, 1/4] = Inr [0, 0, 1/4, 1/4]"
  by (simp add: np_iadd_slice_def slice_indices_def up4 eval_nat_numeral)

lemma ex_play1: "\<exists>s. play example_rfsoc example_qubits [example_flux 0 (1/2) 0] = Inr s
        \<and> waveform_array s 0 = Some [1/2, 1/2, 0, 0]"
proof -
  have a: "amplitude (example_flux 0 (1/2) 0) = 1/2" by (simp add: example_flux_def)
  have z: "waveform_array (play_init example_rfsoc) 0 = Some [0, 0, 0, 0]"
    "dac_end_addr (play_init example_rfsoc) 0 = Some 0"
    "dac_max_amplitude example_rfsoc = 1"
    by (simp_all add: play_init_def example_rfsoc_def eval_nat_numeral)
  show ?thesis
    by (simp add: play_def pulse_step_def accumulate_def ex_window1 a z ex_iadd1)
qed

lemma ex_play2: "\<exists>s. play example_rfsoc example_qubits [example_flux 2 (1/4) 0] = Inr s
        \<and> waveform_array s 0 = Some [0, 0, 1/4, 1/4]"
proof -
  have a: "amplitude (example_flux 2 (1/4) 0) = 1/4" by (simp add: example_flux_def)
  have z: "waveform_array (play_init example_rfsoc) 0 = Some [0, 0, 0, 0]"
    "dac_end_addr (play_init example_rfsoc) 0 = Some 0"
    "dac_max_amplitude example_rfsoc = 1"
    by (simp_all add: play_init_def example_rfsoc_def eval_nat_numeral)
  show ?thesis
    by (simp add: play_def pulse_step_def accumulate_def ex_window2 a z ex_iadd2)
qed

theorem waveform_superposition_witness:
  "\<exists>s1 s2 s12.
      play example_rfsoc example_qubits [example_flux 0 (1/2) 0] = Inr s1
    \<and> play example_rfsoc example_qubits [example_flux 2 (1/4) 0] = Inr s2
    \<and> play example_rfsoc example_qubits [example_flux 0 (1/2) 0, example_flux 2 (1/4) 0] = Inr s12
    \<and> waveform_array s1 0 = Some [1/2, 1/2, 0, 0]
    \<and> waveform_array s2 0 = Some [0, 0, 1/4, 1/4]
    \<and> waveform_array s12 0 = Some [1/2, 1/2, 1/4, 1/4]"
proof -
  from ex_play1 obtain s1 where
    s1: "play example_rfsoc example_qubits [example_flux 0 (1/2) 0] = Inr s1"
    and w1: "waveform_array s1 0 = Some [1/2, 1/2, 0, 0]" by blast
  from ex_play2 obtain s2 where
    s2: "play example_rfsoc example_qubits [example_flux 2 (1/4) 0] = Inr s2"
    and w2: "waveform_array s2 0 = Some [0, 0, 1/4, 1/4]" by blast
  from waveform_superposition [OF s1 s2] obtain s12 where
    s12: "play example_rfsoc example_qubits [example_flux 0 (1/2) 0, example_flux 2 (1/4) 0] = Inr s12"
    and sum: "waveform_array s12 0 = wave_sum (waveform_array s1 0) (waveform_array s2 0)"
    by blast
  from sum w1 w2 have "waveform_array s12 0 = Some [1/2, 1/2, 1/4, 1/4]"
    by (simp add: wave_sum_def)
  with s1 s2 s12 w1 w2 show ?thesis by blast
qed

section \<open>Demodulation\<close>

lemma iq_combine_same: "iq_combine x x = Inr d \<Longrightarrow> iq_equal d"
  by (cases x) (auto simp: list_all_iff set_zip)

lemma readout_step_equal:
  assumes "readout_step dev raw qubits singleshot results p = Inr results'"
    and "\<forall>k r. results k = Some r \<longrightarrow> iq_equal (result_data r)"
  shows "\<forall>k r. results' k = Some r \<longrightarrow> iq_equal (result_data r)"
proof -
  from assms(1) obtain x iq where comb: "iq_combine x x = Inr iq"
    and res: "results' = results(QubitKey (qubit p) \<mapsto> (if singleshot then IntegratedResults iq else AverageOf iq),
                                 SerialKey (serial p) \<mapsto> (if singleshot then IntegratedResults iq else AverageOf iq))"
    by (auto simp: readout_step_def sin_reference_def cos_reference_def Let_def
             split: option.splits list.splits sum.splits)
  from iq_combine_same [OF comb] assms(2) show ?thesis
    by (auto simp: res)
qed

lemma readout_loop_equal:
  assumes "readout_loop dev raw qubits singleshot results ps = Inr results'"
    and "\<forall>k r. results k = Some r \<longrightarrow> iq_equal (result_data r)"
  shows "\<forall>k r. results' k = Some r \<longrightarrow> iq_equal (result_data r)"
  using assms
proof (induction ps arbitrary: results)
  case Nil
  then show ?case by simp
next
  case (Cons p ps)
  from Cons.prems(1) obtain mid where
    st: "readout_step dev raw qubits singleshot results p = Inr mid"
    and rest: "readout_loop dev raw qubits singleshot mid ps = Inr results'"
    by (auto split: sum.splits)
  from Cons.IH [OF rest readout_step_equal [OF st Cons.prems(2)]] show ?case .
qed

text \<open>
  Claim C10.  Both reference vectors of \<open>process_readout_signal\<close> are built with \<open>np.sin\<close>
  of the same argument, so in every entry of the returned dictionary the in-phase and the
  quadrature component are equal.
\<close>

theorem demodulated_components_equal:
  assumes "process_readout_signal dev raw ps qubits singleshot = Inr results"
    and "results k = Some r"
  shows "iq_equal (result_data r)"
  using readout_loop_equal [of dev raw qubits singleshot Map.empty ps results] assms
  by (simp add: process_readout_signal_def)


lemma ex_times: "demodulation_times example_rfsoc = [0, 1 / 1000000]"
  by (simp add: demodulation_times_def example_rfsoc_def eval_nat_numeral)

lemma ex_ref: "sin_reference example_readout [0, 1 / 1000000] = [0, 1]"
  "cos_reference example_readout [0, 1 / 1000000] = [0, 1]"
  by (simp_all add: sin_reference_def cos_reference_def example_readout_def)

lemma ex_readout:
  "process_readout_signal example_rfsoc [1 \<mapsto> Array1 [5, 3]] [example_readout] example_qubits True
     = Inr [QubitKey 0 \<mapsto> IntegratedResults (IQScalar (Complex 3 3)),
            SerialKey ''ro'' \<mapsto> IntegratedResults (IQScalar (Complex 3 3))]"
proof -
  have q: "qubit example_readout = 0" "serial example_readout = ''ro''"
    by (simp_all add: example_readout_def)
  show ?thesis
    by (simp add: process_readout_signal_def readout_step_def example_qubits_def q ex_times ex_ref
          np_dot_def dot_def Let_def)
qed

theorem demodulated_components_equal_witness:
  "process_readout_signal example_rfsoc [1 \<mapsto> Array1 [5, 3]] [example_readout] example_qubits True
     = Inr [QubitKey 0 \<mapsto> IntegratedResults (IQScalar (Complex 3 3)),
            SerialKey ''ro'' \<mapsto> IntegratedResults (IQScalar (Complex 3 3))]
   \<and> iq_equal (result_data (IntegratedResults (IQScalar (Complex 3 3))))"
  using demodulated_components_equal [OF ex_readout, of "QubitKey 0"
          "IntegratedResults (IQScalar (Complex 3 3))"] ex_readout
  by simp

end
